theory Spec2Isabelle
  imports Main
begin

section \<open>JavaScript values and errors\<close>

text \<open>
  The adapter is JavaScript. An exception is a value of type \<open>error\<close>; a function
  that can throw returns \<open>error + 'a\<close> with \<open>Inl\<close> for the thrown error.
  \<open>Error m\<close> is a plain \<^verbatim>\<open>Error\<close> with message \<open>m\<close> (a node rejection, or
  \<^verbatim>\<open>new Error('must be connected')\<close>); \<open>PastSequenceError\<close> is the class of
  \<^verbatim>\<open>errors.js\<close>, always built without arguments, so its message is empty.
\<close>

datatype error =
    Error string
  | PastSequenceError
  | TypeError string
  | ReferenceError string
  | RangeError string

fun message :: "error \<Rightarrow> string" where
  "message (Error m) = m"
| "message PastSequenceError = []"
| "message (TypeError m) = m"
| "message (ReferenceError m) = m"
| "message (RangeError m) = m"

datatype jsval = JUndefined | JNumber int | JString string

text \<open>\<^verbatim>\<open>String.prototype.indexOf\<close>: the first position of the pattern, or \<open>-1\<close>.\<close>

fun indexOf_from :: "nat \<Rightarrow> string \<Rightarrow> string \<Rightarrow> int" where
  "indexOf_from i [] pat = (if pat = [] then int i else - 1)"
| "indexOf_from i (c # cs) pat =
     (if take (length pat) (c # cs) = pat then int i else indexOf_from (Suc i) cs pat)"

definition indexOf :: "string \<Rightarrow> string \<Rightarrow> int" where
  "indexOf s pat = indexOf_from 0 s pat"

text \<open>\<^verbatim>\<open>String.prototype.toLowerCase\<close> on the ASCII letters.\<close>

definition toLowerCase_char :: "char \<Rightarrow> char" where
  "toLowerCase_char c =
     (case map_of (zip ''ABCDEFGHIJKLMNOPQRSTUVWXYZ'' ''abcdefghijklmnopqrstuvwxyz'') c of
        Some l \<Rightarrow> l
      | None \<Rightarrow> c)"

definition toLowerCase :: "string \<Rightarrow> string" where
  "toLowerCase s = map toLowerCase_char s"

section \<open>Identifier codec\<close>

text \<open>
  \<^verbatim>\<open>const uuidToHex = (uuid) => '0x' + uuid.replace(/-/g, '')\<close> (transaction.js).
  The global replace deletes every \<open>-\<close>. Calling \<^verbatim>\<open>.replace\<close> on a value that
  is not a string throws a TypeError; there is no other failure.
\<close>

primrec replace_dashes :: "string \<Rightarrow> string" where
  "replace_dashes [] = []"
| "replace_dashes (c # cs) =
     (if c = CHR ''-'' then replace_dashes cs else c # replace_dashes cs)"

fun uuidToHex :: "jsval \<Rightarrow> error + string" where
  "uuidToHex (JString uuid) = Inr (''0x'' @ replace_dashes uuid)"
| "uuidToHex JUndefined = Inl (TypeError ''Cannot read property replace of undefined'')"
| "uuidToHex (JNumber n) = Inl (TypeError ''uuid.replace is not a function'')"

text \<open>
  The way back is \<^verbatim>\<open>uuidParse.unparse(Buffer.from(_id.substring(2), 'hex'))\<close>
  (plugin.js, \<^verbatim>\<open>_getRddnTransfer\<close>). Both callees are the runtime's:
  \<^verbatim>\<open>Buffer.from(s, 'hex')\<close> decodes pairs of hex digits of either case and stops at
  the first pair that is not hex (a trailing single digit is dropped);
  \<^verbatim>\<open>unparse(buf)\<close> of uuid-parse concatenates \<^verbatim>\<open>byteToHex[buf[i]]\<close> for
  \<open>i = 0..15\<close> with \<open>-\<close> after bytes 4, 6, 8 and 10, where the table holds
  two lower-case digits per byte and a read past the buffer's end is \<^verbatim>\<open>undefined\<close>.
  A byte is a \<open>nat\<close> below 256 here.
\<close>

definition hex_table :: "(char \<times> nat) list" where
  "hex_table =
    [(CHR ''0'', 0), (CHR ''1'', 1), (CHR ''2'', 2), (CHR ''3'', 3), (CHR ''4'', 4),
     (CHR ''5'', 5), (CHR ''6'', 6), (CHR ''7'', 7), (CHR ''8'', 8), (CHR ''9'', 9),
     (CHR ''a'', 10), (CHR ''b'', 11), (CHR ''c'', 12), (CHR ''d'', 13), (CHR ''e'', 14),
     (CHR ''f'', 15), (CHR ''A'', 10), (CHR ''B'', 11), (CHR ''C'', 12), (CHR ''D'', 13),
     (CHR ''E'', 14), (CHR ''F'', 15)]"

definition hexval :: "char \<Rightarrow> nat option" where
  "hexval c = map_of hex_table c"

definition is_hex :: "char \<Rightarrow> bool" where
  "is_hex c = (hexval c \<noteq> None)"

fun buffer_from_hex :: "string \<Rightarrow> nat list" where
  "buffer_from_hex (a # b # cs) =
     (case (hexval a, hexval b) of
        (Some x, Some y) \<Rightarrow> (16 * x + y) # buffer_from_hex cs
      | _ \<Rightarrow> [])"
| "buffer_from_hex _ = []"

definition hexdigit :: "nat \<Rightarrow> char" where
  "hexdigit d = ''0123456789abcdef'' ! d"

definition byteToHex :: "nat \<Rightarrow> string" where
  "byteToHex b = [hexdigit (b div 16), hexdigit (b mod 16)]"

text \<open>
  The operands of the \<^verbatim>\<open>+\<close> chain in \<^verbatim>\<open>unparse\<close> are strings or
  \<^verbatim>\<open>undefined\<close>. JavaScript's \<^verbatim>\<open>+\<close> concatenates as soon as one side is a string
  and adds numerically otherwise, so \<^verbatim>\<open>undefined + undefined\<close> is \<^verbatim>\<open>NaN\<close>; the
  chain associates to the left.
\<close>

datatype js_operand = OUndefined | ONaN | OString string

fun js_text :: "js_operand \<Rightarrow> string" where
  "js_text (OString s) = s"
| "js_text OUndefined = ''undefined''"
| "js_text ONaN = ''NaN''"

fun js_plus :: "js_operand \<Rightarrow> js_operand \<Rightarrow> js_operand" where
  "js_plus (OString a) y = OString (a @ js_text y)"
| "js_plus x (OString b) = OString (js_text x @ b)"
| "js_plus x y = ONaN"

definition bth :: "nat list \<Rightarrow> nat \<Rightarrow> js_operand" where
  "bth buf i = (if i < length buf then OString (byteToHex (buf ! i)) else OUndefined)"

definition unparse :: "nat list \<Rightarrow> string" where
  "unparse buf =
     js_text
       (foldl js_plus (bth buf 0)
          [bth buf 1, bth buf 2, bth buf 3, OString ''-'',
           bth buf 4, bth buf 5, OString ''-'',
           bth buf 6, bth buf 7, OString ''-'',
           bth buf 8, bth buf 9, OString ''-'',
           bth buf 10, bth buf 11, bth buf 12, bth buf 13, bth buf 14, bth buf 15])"

definition toCanonical :: "string \<Rightarrow> string" where
  "toCanonical ledgerId = unparse (buffer_from_hex (drop 2 ledgerId))"

text \<open>
  A well-formed UUID string: five groups of 8, 4, 4, 4 and 12 hex digits (either
  case, as RFC 4122 accepts on input) separated by \<open>-\<close>. The source has no such
  check; the predicate only names the inputs the codec's properties are about.
\<close>

definition valid_uuid :: "string \<Rightarrow> bool" where
  "valid_uuid u =
     (length u = 36 \<and>
      list_all is_hex (take 8 u) \<and> u ! 8 = CHR ''-'' \<and>
      list_all is_hex (take 4 (drop 9 u)) \<and> u ! 13 = CHR ''-'' \<and>
      list_all is_hex (take 4 (drop 14 u)) \<and> u ! 18 = CHR ''-'' \<and>
      list_all is_hex (take 4 (drop 19 u)) \<and> u ! 23 = CHR ''-'' \<and>
      list_all is_hex (take 12 (drop 24 u)))"

text \<open>
  \<^verbatim>\<open>base64url(buffer)\<close> of the base64url package: base64 with the URL-safe
  alphabet and no padding.
\<close>

definition b64 :: "nat \<Rightarrow> char" where
  "b64 n = ''ABCDEFGHIJKLMNOPQRSTUVWXYZabcdefghijklmnopqrstuvwxyz0123456789-_'' ! n"

fun base64url :: "nat list \<Rightarrow> string" where
  "base64url (a # b # c # bs) =
     [b64 (a div 4), b64 ((a mod 4) * 16 + b div 16), b64 ((b mod 16) * 4 + c div 64),
      b64 (c mod 64)] @ base64url bs"
| "base64url [a, b] = [b64 (a div 4), b64 ((a mod 4) * 16 + b div 16), b64 ((b mod 16) * 4)]"
| "base64url [a] = [b64 (a div 4), b64 ((a mod 4) * 16)]"
| "base64url [] = []"

section \<open>The escrow store and the transfer projection\<close>

text \<open>
  \<^verbatim>\<open>contract.methods.getTransfer(_id).call()\<close> returns the escrow record as a
  positional result; the fields are named here by what \<^verbatim>\<open>_getRddnTransfer\<close> reads
  them as: \<^verbatim>\<open>transfer[0]\<close> is \<open>raw_from\<close>, ..., \<^verbatim>\<open>transfer[6]\<close> is
  \<open>raw_direction\<close>. Addresses, amount and condition arrive as strings; expiry,
  state and direction are unsigned integers of the contract.
\<close>

record raw_transfer =
  raw_from :: string
  raw_to :: string
  raw_amount :: string
  raw_condition :: string
  raw_expiry :: nat
  raw_state :: nat
  raw_direction :: nat

text \<open>
  The canonical Transfer, as the object literal of \<^verbatim>\<open>_getRddnTransfer\<close> builds it.
  \<open>id'\<close>, \<open>from'\<close> and \<open>to'\<close> are the fields \<^verbatim>\<open>id\<close>, \<^verbatim>\<open>from\<close>
  and \<^verbatim>\<open>to\<close>. \<^verbatim>\<open>amount\<close> is the number 0 or the store's string;
  \<^verbatim>\<open>custom\<close> is the string \<^verbatim>\<open>''\<close> or the object with \<^verbatim>\<open>moneyId\<close> and
  \<^verbatim>\<open>direction\<close>; \<^verbatim>\<open>state\<close> and the direction name are \<open>None\<close> when they are
  \<^verbatim>\<open>undefined\<close>; \<^verbatim>\<open>ledger\<close> and \<^verbatim>\<open>direction\<close> are \<open>None\<close> until
  dispatch sets them.
\<close>

datatype custom = CustomString string | CustomObject string "string option"

record transfer =
  id' :: string
  from' :: string
  to' :: string
  amount :: jsval
  ilp :: string
  executionCondition :: string
  expiresAt :: string
  custom :: custom
  state :: "string option"
  ledger :: "string option"
  direction :: "string option"

text \<open>
  What is written to the store: one of the three contract methods of transaction.js
  with its arguments. \<^verbatim>\<open>encodeABI\<close> and the re-encodings of the arguments of
  \<^verbatim>\<open>createTransfer\<close> (condition, expiry and payload) are the client library's and
  stay opaque.
\<close>

datatype method_call =
    AbortTransfer string
  | FulfillTransfer string string
  | CreateTransfer transfer string

text \<open>
  The bound contract handle: its address, the three reads \<^verbatim>\<open>_getRddnTransfer\<close>
  makes (each can fail, as a network call does) and the encoder of a method call.
\<close>

record escrow_contract =
  options_address :: string
  getTransfer :: "string \<Rightarrow> error + raw_transfer"
  getMoneyIdByTransferId :: "string \<Rightarrow> error + string"
  getIlpPacket :: "string \<Rightarrow> error + string"
  encodeABI :: "method_call \<Rightarrow> error + string"

text \<open>
  \<^verbatim>\<open>(['prepare', 'fulfill', 'abort'])[state]\<close>: indexing an array past its end is
  \<^verbatim>\<open>undefined\<close> (\<open>None\<close>), not an error.
\<close>

definition array_index :: "'a list \<Rightarrow> nat \<Rightarrow> 'a option" where
  "array_index xs i = (if i < length xs then Some (xs ! i) else None)"

definition stateToName :: "nat \<Rightarrow> string option" where
  "stateToName st = array_index [''prepare'', ''fulfill'', ''abort''] st"

definition directionToName :: "nat \<Rightarrow> string option" where
  "directionToName dir = array_index [''deposit'', ''withdraw''] dir"

definition hexToAccount :: "string \<Rightarrow> string \<Rightarrow> string" where
  "hexToAccount pre account = pre @ account"

definition zero_address :: string where
  "zero_address = ''0x0000000000000000000000000000000000000000''"

text \<open>
  \<^verbatim>\<open>(new Date(+transfer[4] * 1000)).toISOString()\<close> throws a RangeError when the
  time value is beyond 8.64e15 ms; below that bound the product is exact in a double.
  The text of an instant in range is the runtime's and is the parameter \<open>fmt\<close>.
\<close>

definition toISOString :: "(int \<Rightarrow> string) \<Rightarrow> int \<Rightarrow> error + string" where
  "toISOString fmt ms =
     (if 8640000000000000 < \<bar>ms\<bar> then Inl (RangeError ''Invalid time value'')
      else Inr (fmt ms))"

section \<open>The adapter\<close>

text \<open>
  The fields of \<^verbatim>\<open>this\<close> that the constructor of \<^verbatim>\<open>PluginRddn\<close> sets or that the
  methods read (\<open>prefix'\<close> is \<^verbatim>\<open>_prefix\<close>, \<open>private'\<close> is \<^verbatim>\<open>private\<close>;
  \<^verbatim>\<open>outgoingList\<close> and \<^verbatim>\<open>incomingList\<close> are read by \<^verbatim>\<open>forceEmitPrepare\<close> and
  set nowhere, so they are \<^verbatim>\<open>undefined\<close> unless the host assigns them). A node
  handle is named by the endpoint it was opened at.

  The remaining fields record what the adapter did to the outside, in order: the
  events passed to \<^verbatim>\<open>emit\<close>, the endpoints \<^verbatim>\<open>createWebsocketProvider\<close> was
  called with, the links closed by \<^verbatim>\<open>currentProvider.disconnect()\<close>, the periods
  given to \<^verbatim>\<open>setInterval\<close>, the deadlines of the timers started by \<^verbatim>\<open>_sleep\<close>,
  the entries into the functions of transaction.js, the number of
  \<^verbatim>\<open>getTransactionCount\<close> reads and the signed transactions written to the node,
  each with the time of the write. \<open>now\<close> is a clock in milliseconds that only
  awaiting a timer advances: it measures the waiting the adapter itself inserts.
\<close>

datatype arg = ArgTransfer transfer | ArgValue jsval

type_synonym event = "string \<times> arg list"

record plugin =
  primaryProvider :: string
  secondaryProvider :: string
  provider :: string
  address :: string
  privateKey :: string
  contractAddress :: string
  prefix' :: string
  private' :: string
  contract :: "escrow_contract option"
  web3 :: "string option"
  extWeb3 :: "string option"
  isProcessing :: bool
  outgoingList :: "string list option"
  incomingList :: "string list option"
  emitted :: "event list"
  attempts :: "string list"
  closed :: "string list"
  intervals :: "nat list"
  timers :: "nat list"
  now :: nat
  submitter_calls :: "string list"
  nonce_reads :: nat
  sent :: "(nat \<times> string) list"

record opts =
  opts_provider :: string
  opts_altProvider :: "string option"
  opts_address :: string
  opts_secretKey :: string
  opts_contract :: string
  opts_prefix :: string
  opts_private :: "string option"

text \<open>
  The constructor. \<^verbatim>\<open>opts.altProvider || opts.provider\<close> and
  \<^verbatim>\<open>opts.private || ''\<close>: an absent or empty string is falsy.
\<close>

definition PluginRddn :: "opts \<Rightarrow> plugin" where
  "PluginRddn opts =
     \<lparr> primaryProvider = opts_provider opts,
       secondaryProvider =
         (case opts_altProvider opts of
            None \<Rightarrow> opts_provider opts
          | Some alt \<Rightarrow> if alt = [] then opts_provider opts else alt),
       provider = opts_provider opts,
       address = opts_address opts,
       privateKey = opts_secretKey opts,
       contractAddress = opts_contract opts,
       prefix' = opts_prefix opts,
       private' = (case opts_private opts of None \<Rightarrow> [] | Some s \<Rightarrow> s),
       contract = None,
       web3 = None,
       extWeb3 = None,
       isProcessing = False,
       outgoingList = None,
       incomingList = None,
       emitted = [],
       attempts = [],
       closed = [],
       intervals = [],
       timers = [],
       now = 0,
       submitter_calls = [],
       nonce_reads = 0,
       sent = [] \<rparr>"

definition getAccount :: "plugin \<Rightarrow> string" where
  "getAccount p = prefix' p @ address p"

definition setWeb3 :: "plugin \<Rightarrow> string \<Rightarrow> plugin" where
  "setWeb3 p w = p\<lparr>extWeb3 := Some w\<rparr>"

definition emit :: "plugin \<Rightarrow> string \<Rightarrow> arg list \<Rightarrow> plugin" where
  "emit p name args = p\<lparr>emitted := emitted p @ [(name, args)]\<rparr>"

definition isConnected :: "plugin \<Rightarrow> bool" where
  "isConnected p = (web3 p \<noteq> None \<or> extWeb3 p \<noteq> None)"

subsection \<open>Transfer projection\<close>

text \<open>
  \<^verbatim>\<open>_getRddnTransfer(_id)\<close>. Reading \<^verbatim>\<open>this.contract.methods\<close> before
  \<^verbatim>\<open>connect\<close> has bound a contract is a TypeError; each of the three reads can
  fail; the fields of the result are evaluated in the order of the object literal, so
  the only throw after the reads is that of \<^verbatim>\<open>toISOString\<close>.
\<close>

definition getRddnTransfer :: "(int \<Rightarrow> string) \<Rightarrow> plugin \<Rightarrow> string \<Rightarrow> error + transfer" where
  "getRddnTransfer fmt p id_hex =
     (case contract p of
        None \<Rightarrow> Inl (TypeError ''Cannot read property methods of undefined'')
      | Some c \<Rightarrow>
          (case getTransfer c id_hex of
             Inl e \<Rightarrow> Inl e
           | Inr t \<Rightarrow>
               if raw_from t = zero_address then
                 Inr \<lparr> id' = unparse (buffer_from_hex (drop 2 id_hex)),
                       from' = [],
                       to' = [],
                       amount = JNumber 0,
                       ilp = [],
                       executionCondition = [],
                       expiresAt = [],
                       custom = CustomString [],
                       state = Some [],
                       ledger = None,
                       direction = None \<rparr>
               else
                 (case getMoneyIdByTransferId c id_hex of
                    Inl e \<Rightarrow> Inl e
                  | Inr moneyId \<Rightarrow>
                      (case getIlpPacket c id_hex of
                         Inl e \<Rightarrow> Inl e
                       | Inr packet \<Rightarrow>
                           (let ilp_text = base64url (buffer_from_hex (drop 2 packet));
                                unparsedId = unparse (buffer_from_hex (drop 2 id_hex));
                                custom_obj = CustomObject moneyId (directionToName (raw_direction t))
                            in case toISOString fmt (int (raw_expiry t) * 1000) of
                                 Inl e \<Rightarrow> Inl e
                               | Inr expires \<Rightarrow>
                                   Inr \<lparr> id' = unparsedId,
                                         from' = hexToAccount (prefix' p) (raw_from t),
                                         to' = hexToAccount (prefix' p) (raw_to t),
                                         amount = JString (raw_amount t),
                                         ilp = ilp_text,
                                         executionCondition =
                                           base64url (buffer_from_hex (drop 2 (raw_condition t))),
                                         expiresAt = expires,
                                         custom = custom_obj,
                                         state = stateToName (raw_state t),
                                         ledger = None,
                                         direction = None \<rparr>)))))"

text \<open>\<^verbatim>\<open>getTransfer(uuid)\<close>: the argument \<^verbatim>\<open>Transaction.uuidToHex(uuid)\<close> is evaluated first.\<close>

definition getTransfer_by_uuid :: "(int \<Rightarrow> string) \<Rightarrow> plugin \<Rightarrow> jsval \<Rightarrow> error + transfer" where
  "getTransfer_by_uuid fmt p uuid =
     (case uuidToHex uuid of
        Inl e \<Rightarrow> Inl e
      | Inr id_hex \<Rightarrow> getRddnTransfer fmt p id_hex)"

subsection \<open>Dispatch\<close>

text \<open>
  String concatenation with a state that is \<^verbatim>\<open>undefined\<close> yields the text
  \<^verbatim>\<open>undefined\<close>.
\<close>

definition js_string :: "string option \<Rightarrow> string" where
  "js_string v = (case v of None \<Rightarrow> ''undefined'' | Some s \<Rightarrow> s)"

text \<open>
  \<^verbatim>\<open>_processUpdate(transfer, fulfillment)\<close>: two independent \<^verbatim>\<open>if\<close>s assign
  \<^verbatim>\<open>direction\<close>, the second after the first. \<^verbatim>\<open>fulfillment\<close> is
  \<open>JUndefined\<close> when the caller passes none.
\<close>

definition processUpdate :: "plugin \<Rightarrow> transfer \<Rightarrow> jsval \<Rightarrow> plugin" where
  "processUpdate p t fulfillment =
     (let dir0 = (if from' t = getAccount p then Some ''outgoing'' else None);
          dir = (if to' t = getAccount p then Some ''incoming'' else dir0)
      in case dir of
           None \<Rightarrow>
             if state t = Some ''fulfill'' then
               emit p ''event_fulfill'' [ArgTransfer t, ArgValue fulfillment]
             else emit p (''event_'' @ js_string (state t)) [ArgTransfer t]
         | Some d \<Rightarrow>
             (let t' = t\<lparr>ledger := Some (prefix' p)\<rparr>
              in if state t' = Some ''fulfill'' then
                   emit p (d @ ''_'' @ js_string (state t'))
                     [ArgTransfer t', ArgValue fulfillment, ArgValue (JString (ilp t'))]
                 else emit p (d @ ''_'' @ js_string (state t')) [ArgTransfer t']))"

text \<open>
  The handlers \<^verbatim>\<open>connect\<close> registers on the \<^verbatim>\<open>Fulfill\<close> and \<^verbatim>\<open>Update\<close>
  channels: resolve, then dispatch. A failed resolution rejects the handler's promise
  and nothing is emitted.
\<close>

definition on_Fulfill :: "(int \<Rightarrow> string) \<Rightarrow> plugin \<Rightarrow> string \<Rightarrow> string \<Rightarrow> (error + unit) \<times> plugin" where
  "on_Fulfill fmt p uuid fulfillment =
     (case getRddnTransfer fmt p uuid of
        Inl e \<Rightarrow> (Inl e, p)
      | Inr t \<Rightarrow>
          (Inr (), processUpdate p t (JString (base64url (buffer_from_hex (drop 2 fulfillment))))))"

definition on_Update :: "(int \<Rightarrow> string) \<Rightarrow> plugin \<Rightarrow> string \<Rightarrow> (error + unit) \<times> plugin" where
  "on_Update fmt p uuid =
     (case getRddnTransfer fmt p uuid of
        Inl e \<Rightarrow> (Inl e, p)
      | Inr t \<Rightarrow> (Inr (), processUpdate p t JUndefined))"

subsection \<open>Forced re-emission\<close>

text \<open>
  \<^verbatim>\<open>forceEmitPrepare\<close> evaluates
  \<^verbatim>\<open>transfer.from === this.getAccount() || _.includes(this.outgoingList, ...)\<close>.
  plugin.js declares no \<^verbatim>\<open>_\<close> (it requires base64url, web3, eventemitter2, debug,
  errors, transaction and uuid-parse), so the name resolves in the global scope:
  \<open>lodash\<close> says whether the host has bound the global \<^verbatim>\<open>_\<close> to lodash. If not,
  evaluating \<^verbatim>\<open>_\<close> throws a ReferenceError; \<^verbatim>\<open>||\<close> evaluates its right operand
  only when the left one is false. lodash's \<^verbatim>\<open>includes\<close> of an \<^verbatim>\<open>undefined\<close>
  collection is false.
\<close>

definition lodash_includes :: "bool \<Rightarrow> string list option \<Rightarrow> string \<Rightarrow> error + bool" where
  "lodash_includes lodash collection v =
     (if \<not> lodash then Inl (ReferenceError ''_ is not defined'')
      else Inr (case collection of None \<Rightarrow> False | Some xs \<Rightarrow> v \<in> set xs))"

definition forceEmitPrepare :: "bool \<Rightarrow> (int \<Rightarrow> string) \<Rightarrow> plugin \<Rightarrow> jsval \<Rightarrow> (error + bool) \<times> plugin" where
  "forceEmitPrepare lodash fmt p transferId =
     (case getTransfer_by_uuid fmt p transferId of
        Inl e \<Rightarrow> (Inl e, p)
      | Inr t \<Rightarrow>
          (case (if from' t = getAccount p then Inr True
                 else lodash_includes lodash (outgoingList p) (toLowerCase (from' t))) of
             Inl e \<Rightarrow> (Inl e, p)
           | Inr is_out \<Rightarrow>
               (case (if to' t = getAccount p then Inr True
                      else lodash_includes lodash (incomingList p) (toLowerCase (to' t))) of
                  Inl e \<Rightarrow> (Inl e, p)
                | Inr is_in \<Rightarrow>
                    (let dir0 = (if is_out then Some ''outgoing'' else None);
                         dir = (if is_in then Some ''incoming'' else dir0)
                     in case dir of
                          Some d \<Rightarrow>
                            (Inr True,
                             emit p (d @ ''_prepare'') [ArgTransfer (t\<lparr>direction := Some d\<rparr>)])
                        | None \<Rightarrow> (Inr False, p)))))"

definition forceEmitFulfill :: "(int \<Rightarrow> string) \<Rightarrow> plugin \<Rightarrow> jsval \<Rightarrow> jsval \<Rightarrow> jsval \<Rightarrow> (error + bool) \<times> plugin" where
  "forceEmitFulfill fmt p transferId fulfillment ilp_arg =
     (case getTransfer_by_uuid fmt p transferId of
        Inl e \<Rightarrow> (Inl e, p)
      | Inr t \<Rightarrow>
          (let dir0 = (if from' t = getAccount p then Some ''outgoing'' else None);
               dir = (if to' t = getAccount p then Some ''incoming'' else dir0)
           in case dir of
                Some d \<Rightarrow>
                  (Inr True,
                   emit p (d @ ''_fulfill'')
                     [ArgTransfer (t\<lparr>direction := Some d\<rparr>), ArgValue fulfillment, ArgValue ilp_arg])
              | None \<Rightarrow> (Inr False, p)))"

section \<open>Transaction submitter (transaction.js)\<close>

text \<open>
  The node's answers are the environment: \<open>getTransactionCount nd k\<close> answers the
  \<open>k\<close>-th read of the pending transaction count, \<open>sendSignedTransaction nd k\<close>
  the \<open>k\<close>-th write, and \<open>sign nd\<close> is the signing and serialising of
  ethereumjs-tx, which can throw on a malformed key.
\<close>

record rawTx =
  tx_from :: string
  tx_to :: string
  tx_gasPrice :: nat
  tx_gas :: nat
  tx_data :: string
  tx_nonce :: nat

record node =
  getTransactionCount :: "nat \<Rightarrow> error + nat"
  sign :: "string \<Rightarrow> rawTx \<Rightarrow> error + string"
  sendSignedTransaction :: "nat \<Rightarrow> error + unit"

definition gasLimit :: nat where
  "gasLimit = 4700000"

definition gasPrice :: nat where
  "gasPrice = 0"

text \<open>
  The three functions of transaction.js share their text after the encoding of the
  call: read the nonce through \<^verbatim>\<open>web3.eth\<close> (a TypeError when the handle is
  \<^verbatim>\<open>null\<close>), build and sign the transaction, write it. \<open>sign_and_send\<close> is that
  shared text.
\<close>

definition sign_and_send ::
  "node \<Rightarrow> plugin \<Rightarrow> escrow_contract \<Rightarrow> string \<Rightarrow> string \<Rightarrow> string \<Rightarrow> string option
     \<Rightarrow> (error + unit) \<times> plugin" where
  "sign_and_send nd p c params addr key handle =
     (case handle of
        None \<Rightarrow> (Inl (TypeError ''Cannot read property eth of null''), p)
      | Some w \<Rightarrow>
          (let p1 = p\<lparr>nonce_reads := Suc (nonce_reads p)\<rparr>
           in case getTransactionCount nd (nonce_reads p) of
                Inl e \<Rightarrow> (Inl e, p1)
              | Inr n \<Rightarrow>
                  (case sign nd key
                          \<lparr> tx_from = addr, tx_to = options_address c, tx_gasPrice = gasPrice,
                            tx_gas = gasLimit, tx_data = params, tx_nonce = n \<rparr> of
                     Inl e \<Rightarrow> (Inl e, p1)
                   | Inr serializedTx \<Rightarrow>
                       (sendSignedTransaction nd (length (sent p1)),
                        p1\<lparr>sent := sent p1 @ [(now p1, ''0x'' @ serializedTx)]\<rparr>))))"

definition Transaction_rejectIncomingTransfer ::
  "node \<Rightarrow> plugin \<Rightarrow> escrow_contract option \<Rightarrow> jsval \<Rightarrow> string \<Rightarrow> string \<Rightarrow> string option \<Rightarrow> string
     \<Rightarrow> (error + unit) \<times> plugin" where
  "Transaction_rejectIncomingTransfer nd p0 contr uuid addr key handle privateFor =
     (let p = p0\<lparr>submitter_calls := submitter_calls p0 @ [''rejectIncomingTransfer'']\<rparr>
      in case contr of
           None \<Rightarrow> (Inl (TypeError ''Cannot read property methods of undefined''), p)
         | Some c \<Rightarrow>
             (case uuidToHex uuid of
                Inl e \<Rightarrow> (Inl e, p)
              | Inr id_hex \<Rightarrow>
                  (case encodeABI c (AbortTransfer id_hex) of
                     Inl e \<Rightarrow> (Inl e, p)
                   | Inr params \<Rightarrow> sign_and_send nd p c params addr key handle)))"

definition Transaction_fulfillCondition ::
  "node \<Rightarrow> plugin \<Rightarrow> escrow_contract option \<Rightarrow> jsval \<Rightarrow> string \<Rightarrow> string \<Rightarrow> string \<Rightarrow> string option
     \<Rightarrow> string \<Rightarrow> (error + unit) \<times> plugin" where
  "Transaction_fulfillCondition nd p0 contr uuid fulfillment addr key handle privateFor =
     (let p = p0\<lparr>submitter_calls := submitter_calls p0 @ [''fulfillCondition'']\<rparr>
      in case contr of
           None \<Rightarrow> (Inl (TypeError ''Cannot read property methods of undefined''), p)
         | Some c \<Rightarrow>
             (case uuidToHex uuid of
                Inl e \<Rightarrow> (Inl e, p)
              | Inr id_hex \<Rightarrow>
                  (case encodeABI c (FulfillTransfer id_hex fulfillment) of
                     Inl e \<Rightarrow> (Inl e, p)
                   | Inr params \<Rightarrow> sign_and_send nd p c params addr key handle)))"

definition Transaction_sendTransfer ::
  "node \<Rightarrow> plugin \<Rightarrow> escrow_contract option \<Rightarrow> transfer \<Rightarrow> string \<Rightarrow> string \<Rightarrow> string
     \<Rightarrow> string option \<Rightarrow> string \<Rightarrow> (error + unit) \<times> plugin" where
  "Transaction_sendTransfer nd p0 contr t addr key pre handle privateFor =
     (let p = p0\<lparr>submitter_calls := submitter_calls p0 @ [''sendTransfer'']\<rparr>
      in case contr of
           None \<Rightarrow> (Inl (TypeError ''Cannot read property methods of undefined''), p)
         | Some c \<Rightarrow>
             (case uuidToHex (JString (id' t)) of
                Inl e \<Rightarrow> (Inl e, p)
              | Inr id_hex \<Rightarrow>
                  (case encodeABI c (CreateTransfer t id_hex) of
                     Inl e \<Rightarrow> (Inl e, p)
                   | Inr params \<Rightarrow> sign_and_send nd p c params addr key handle)))"

section \<open>Submission through the adapter\<close>

text \<open>\<^verbatim>\<open>this.web3 || this.extWeb3\<close>\<close>

definition web3_or_ext :: "plugin \<Rightarrow> string option" where
  "web3_or_ext p = (case web3 p of Some w \<Rightarrow> Some w | None \<Rightarrow> extWeb3 p)"

text \<open>
  \<^verbatim>\<open>sendTransfer(_transfer)\<close>: the connectivity check, the submission, and the catch
  block with its one pattern.
\<close>

definition sendTransfer :: "node \<Rightarrow> plugin \<Rightarrow> transfer \<Rightarrow> (error + unit) \<times> plugin" where
  "sendTransfer nd p t =
     (if web3 p = None \<and> extWeb3 p = None then (Inl (Error ''must be connected''), p)
      else
        (case Transaction_sendTransfer nd p (contract p) t (address p) (privateKey p) (prefix' p)
                (web3_or_ext p) (private' p) of
           (Inr u, p') \<Rightarrow> (Inr u, p')
         | (Inl err, p') \<Rightarrow>
             (let msg = message err
              in if 0 \<le> indexOf msg ''replacement transaction underpriced'' then
                   (Inl PastSequenceError, p')
                 else (Inl err, p'))))"

text \<open>
  \<^verbatim>\<open>_rejectIncomingTransfer\<close> and \<^verbatim>\<open>_fulfillCondition\<close> (\<open>rejectIncomingTransfer'\<close>
  and \<open>fulfillCondition'\<close> here): the submission, and the catch block with its two
  patterns.
\<close>

definition rejectIncomingTransfer' :: "node \<Rightarrow> plugin \<Rightarrow> jsval \<Rightarrow> (error + unit) \<times> plugin" where
  "rejectIncomingTransfer' nd p transferId =
     (case Transaction_rejectIncomingTransfer nd p (contract p) transferId (address p)
             (privateKey p) (web3_or_ext p) (private' p) of
        (Inr u, p') \<Rightarrow> (Inr u, p')
      | (Inl err, p') \<Rightarrow>
          (let msg = message err
           in if 0 \<le> indexOf msg ''replacement transaction underpriced'' then
                (Inl PastSequenceError, p')
              else if 0 \<le> indexOf msg ''known transaction'' then (Inl PastSequenceError, p')
              else (Inl err, p')))"

definition fulfillCondition' :: "node \<Rightarrow> plugin \<Rightarrow> jsval \<Rightarrow> string \<Rightarrow> (error + unit) \<times> plugin" where
  "fulfillCondition' nd p transferId fulfillment =
     (case Transaction_fulfillCondition nd p (contract p) transferId fulfillment (address p)
             (privateKey p) (web3_or_ext p) (private' p) of
        (Inr u, p') \<Rightarrow> (Inr u, p')
      | (Inl err, p') \<Rightarrow>
          (let msg = message err
           in if 0 \<le> indexOf msg ''replacement transaction underpriced'' then
                (Inl PastSequenceError, p')
              else if 0 \<le> indexOf msg ''known transaction'' then (Inl PastSequenceError, p')
              else (Inl err, p')))"

section \<open>Retry coordinator\<close>

text \<open>
  \<^verbatim>\<open>_sleep(time)\<close> starts a timer and returns the promise the timer resolves; the
  promise is named by the timer's position. Awaiting it is what suspends the caller
  until the deadline.
\<close>

definition sleep :: "plugin \<Rightarrow> nat \<Rightarrow> nat \<times> plugin" where
  "sleep p time = (length (timers p), p\<lparr>timers := timers p @ [now p + time]\<rparr>)"

definition await_timer :: "plugin \<Rightarrow> nat \<Rightarrow> plugin" where
  "await_timer p k = (if k < length (timers p) then p\<lparr>now := max (now p) (timers p ! k)\<rparr> else p)"

text \<open>
  \<^verbatim>\<open>rejectIncomingTransfer\<close> and \<^verbatim>\<open>fulfillCondition\<close>: on a
  \<^verbatim>\<open>PastSequenceError\<close> the source calls \<^verbatim>\<open>this._sleep(500)\<close> as a statement,
  without \<^verbatim>\<open>await\<close>, and then awaits its own re-invocation. The recursion has no
  bound, so the functions are partial: \<open>None\<close> is a call that never returns.
\<close>

partial_function (option) rejectIncomingTransfer ::
  "node \<Rightarrow> plugin \<Rightarrow> jsval \<Rightarrow> ((error + unit) \<times> plugin) option" where
  "rejectIncomingTransfer nd p transferId =
     (case rejectIncomingTransfer' nd p transferId of
        (Inr u, p') \<Rightarrow> Some (Inr u, p')
      | (Inl err, p') \<Rightarrow>
          if err = PastSequenceError then
            rejectIncomingTransfer nd (snd (sleep p' 500)) transferId
          else Some (Inl err, p'))"

partial_function (option) fulfillCondition ::
  "node \<Rightarrow> plugin \<Rightarrow> jsval \<Rightarrow> string \<Rightarrow> string \<Rightarrow> ((error + unit) \<times> plugin) option" where
  "fulfillCondition nd p transferId fulfillment ilp_arg =
     (case fulfillCondition' nd p transferId fulfillment of
        (Inr u, p') \<Rightarrow> Some (Inr u, p')
      | (Inl err, p') \<Rightarrow>
          if err = PastSequenceError then
            fulfillCondition nd (snd (sleep p' 500)) transferId fulfillment ilp_arg
          else Some (Inl err, p'))"

text \<open>
  The coordinator as the specification words it, for comparison: the same loop, but
  the backoff timer is awaited before the call is issued again.
\<close>

partial_function (option) fulfillCondition_with_backoff ::
  "node \<Rightarrow> plugin \<Rightarrow> jsval \<Rightarrow> string \<Rightarrow> string \<Rightarrow> ((error + unit) \<times> plugin) option" where
  "fulfillCondition_with_backoff nd p transferId fulfillment ilp_arg =
     (case fulfillCondition' nd p transferId fulfillment of
        (Inr u, p') \<Rightarrow> Some (Inr u, p')
      | (Inl err, p') \<Rightarrow>
          if err = PastSequenceError then
            (case sleep p' 500 of
               (k, p'') \<Rightarrow>
                 fulfillCondition_with_backoff nd (await_timer p'' k) transferId fulfillment ilp_arg)
          else Some (Inl err, p'))"

text \<open>
  The adapter state in which the next attempt of \<^verbatim>\<open>fulfillCondition\<close> starts after
  an attempt that ended in a \<^verbatim>\<open>PastSequenceError\<close>: the state the attempt left,
  with the backoff timer started.
\<close>

definition fulfill_retry_state :: "node \<Rightarrow> jsval \<Rightarrow> string \<Rightarrow> plugin \<Rightarrow> plugin" where
  "fulfill_retry_state nd transferId fulfillment p =
     snd (sleep (snd (fulfillCondition' nd p transferId fulfillment)) 500)"

section \<open>Connection manager\<close>

text \<open>
  \<^verbatim>\<open>_heartbeat()\<close> starts the probe at most once, and never with an external
  handle: \<^verbatim>\<open>setInterval(..., 5 * 1000)\<close>.
\<close>

definition heartbeat :: "plugin \<Rightarrow> plugin" where
  "heartbeat p =
     (if extWeb3 p \<noteq> None then p
      else if isProcessing p then p
      else p\<lparr>isProcessing := True, intervals := intervals p @ [5 * 1000]\<rparr>)"

text \<open>
  \<^verbatim>\<open>connect()\<close>, with the contract handle that \<^verbatim>\<open>new web3.eth.Contract\<close> yields
  as the parameter \<open>c\<close>. With a local handle already bound it returns before the
  subscriptions, the probe and the \<^verbatim>\<open>connect\<close> event.
\<close>

definition connect :: "escrow_contract \<Rightarrow> plugin \<Rightarrow> plugin" where
  "connect c p =
     (if extWeb3 p \<noteq> None then
        emit (heartbeat (p\<lparr>contract := Some c\<rparr>)) ''connect'' []
      else if web3 p \<noteq> None then p
      else
        emit
          (heartbeat
            (p\<lparr>web3 := Some (provider p), attempts := attempts p @ [provider p],
               contract := Some c\<rparr>))
          ''connect'' [])"

definition disconnect :: "plugin \<Rightarrow> plugin" where
  "disconnect p =
     (case web3 p of
        None \<Rightarrow> p
      | Some w \<Rightarrow> emit (p\<lparr>closed := closed p @ [w], web3 := None\<rparr>) ''disconnect'' [])"

text \<open>
  One run of the interval callback of \<^verbatim>\<open>_heartbeat\<close>. \<open>listening\<close> is the outcome
  of \<^verbatim>\<open>web3.eth.net.isListening()\<close> (\<open>False\<close>: the promise rejects), asked only
  when a local handle is bound. Each branch flips \<^verbatim>\<open>this.provider\<close> with its own
  \<^verbatim>\<open>if\<close>/\<^verbatim>\<open>else\<close> and then calls \<^verbatim>\<open>createWebsocketProvider(this.provider)\<close>.
  The \<^verbatim>\<open>connect\<close> callback of that provider runs \<open>connect\<close> later, when the
  endpoint answers.
\<close>

definition heartbeat_tick :: "bool \<Rightarrow> plugin \<Rightarrow> plugin" where
  "heartbeat_tick listening p =
     (let p1 =
            (if web3 p = None then
               (let q = (if provider p = primaryProvider p
                         then p\<lparr>provider := secondaryProvider p\<rparr>
                         else p\<lparr>provider := primaryProvider p\<rparr>)
                in q\<lparr>attempts := attempts q @ [provider q]\<rparr>)
             else p)
      in case web3 p1 of
           None \<Rightarrow> p1
         | Some w \<Rightarrow>
             if listening then p1
             else
               (let q0 = p1\<lparr>closed := closed p1 @ [w], web3 := None\<rparr>;
                    q = (if provider q0 = primaryProvider q0
                         then q0\<lparr>provider := secondaryProvider q0\<rparr>
                         else q0\<lparr>provider := primaryProvider q0\<rparr>)
                in q\<lparr>attempts := attempts q @ [provider q]\<rparr>))"

section \<open>Concrete configurations\<close>

text \<open>
  An adapter, a store and a node used to run the model on explicit inputs: the
  adapter's account is \<open>test.0xaaaa\<close>; \<open>store_of r\<close> answers every lookup with the
  record \<open>r\<close>, money id \<open>JPY-1\<close> and an empty payload; \<open>node_of replies\<close> signs
  everything and answers the \<open>k\<close>-th write with \<open>replies k\<close>.
\<close>

definition example_opts :: opts where
  "example_opts =
     \<lparr> opts_provider = ''ws://p1'', opts_altProvider = Some ''ws://p2'',
       opts_address = ''0xaaaa'', opts_secretKey = ''0x01'', opts_contract = ''0xcccc'',
       opts_prefix = ''test.'', opts_private = None \<rparr>"

definition store_of :: "raw_transfer \<Rightarrow> escrow_contract" where
  "store_of r =
     \<lparr> options_address = ''0xcccc'',
       getTransfer = (\<lambda>_. Inr r),
       getMoneyIdByTransferId = (\<lambda>_. Inr ''JPY-1''),
       getIlpPacket = (\<lambda>_. Inr ''0x''),
       encodeABI = (\<lambda>_. Inr ''0xdata'') \<rparr>"

definition example_raw :: "string \<Rightarrow> string \<Rightarrow> nat \<Rightarrow> nat \<Rightarrow> raw_transfer" where
  "example_raw src dst st dir =
     \<lparr> raw_from = src, raw_to = dst, raw_amount = ''1000'', raw_condition = ''0x'',
       raw_expiry = 1500000000, raw_state = st, raw_direction = dir \<rparr>"

definition node_of :: "(nat \<Rightarrow> error + unit) \<Rightarrow> node" where
  "node_of replies =
     \<lparr> getTransactionCount = (\<lambda>k. Inr k),
       sign = (\<lambda>key tx. Inr ''f8''),
       sendSignedTransaction = replies \<rparr>"

definition example_uuid :: string where
  "example_uuid = ''f55585e1-0c19-4588-832d-369cfa005640''"

definition example_fmt :: "int \<Rightarrow> string" where
  "example_fmt ms = ''2017-07-14T02:40:00.000Z''"

definition example_transfer :: transfer where
  "example_transfer =
     \<lparr> id' = example_uuid, from' = ''test.0xaaaa'', to' = ''test.0xbbbb'',
       amount = JString ''1000'', ilp = [], executionCondition = [], expiresAt = [],
       custom = CustomObject ''JPY-1'' (Some ''deposit''), state = Some ''prepare'',
       ledger = None, direction = None \<rparr>"

text \<open>
  The adapter after \<^verbatim>\<open>connect\<close> against a store that holds a prepared transfer
  from the adapter's own account to another one.
\<close>

definition example_plugin :: plugin where
  "example_plugin =
     connect (store_of (example_raw ''0xaaaa'' ''0xbbbb'' 0 0)) (PluginRddn example_opts)"

text \<open>A node that rejects the first write as a known transaction and accepts the next.\<close>

definition conflict_once :: "nat \<Rightarrow> error + unit" where
  "conflict_once k = (if k = 0 then Inl (Error ''known transaction: f8'') else Inr ())"

section \<open>Identifier codec: properties\<close>

lemma is_hex_not_dash: "is_hex c \<Longrightarrow> c \<noteq> CHR ''-''"
  by (auto simp: is_hex_def hexval_def hex_table_def)

lemma replace_dashes_filter: "replace_dashes s = filter (\<lambda>c. c \<noteq> CHR ''-'') s"
  by (induction s) auto

lemma replace_dashes_hex: "list_all is_hex g \<Longrightarrow> replace_dashes g = g"
  by (induction g) (auto dest: is_hex_not_dash)

lemma replace_dashes_append:
  "replace_dashes (a @ b) = replace_dashes a @ replace_dashes b"
  by (induction a) auto

lemma hexval_lower:
  "hexval c = Some v \<Longrightarrow> v < 16 \<and> hexdigit v = toLowerCase_char c"
  by (auto simp: hexval_def hex_table_def hexdigit_def toLowerCase_char_def split: if_splits)

lemma byteToHex_pair:
  assumes "hexval a = Some x" "hexval b = Some y"
  shows "byteToHex (16 * x + y) = [toLowerCase_char a, toLowerCase_char b]"
proof -
  from assms have "x < 16" "y < 16"
    and "hexdigit x = toLowerCase_char a" "hexdigit y = toLowerCase_char b"
    using hexval_lower by blast+
  then show ?thesis by (simp add: byteToHex_def)
qed

lemma buffer_from_hex_append:
  "list_all is_hex g \<Longrightarrow> even (length g) \<Longrightarrow>
     buffer_from_hex (g @ r) = buffer_from_hex g @ buffer_from_hex r"
  by (induction g rule: buffer_from_hex.induct) (auto simp: is_hex_def)

lemma length_buffer_from_hex:
  "list_all is_hex g \<Longrightarrow> even (length g) \<Longrightarrow> length (buffer_from_hex g) = length g div 2"
  by (induction g rule: buffer_from_hex.induct) (auto simp: is_hex_def)

lemma hex_of_buffer:
  "list_all is_hex g \<Longrightarrow> even (length g) \<Longrightarrow>
     concat (map byteToHex (buffer_from_hex g)) = map toLowerCase_char g"
  by (induction g rule: buffer_from_hex.induct) (auto simp: is_hex_def byteToHex_pair)

lemma unparse_groups:
  assumes "length b1 = 4" "length b2 = 2" "length b3 = 2" "length b4 = 2" "length b5 = 6"
  shows "unparse (b1 @ b2 @ b3 @ b4 @ b5) =
     concat (map byteToHex b1) @ ''-'' @ concat (map byteToHex b2) @ ''-'' @
     concat (map byteToHex b3) @ ''-'' @ concat (map byteToHex b4) @ ''-'' @
     concat (map byteToHex b5)"
proof -
  from assms(1) obtain a0 a1 a2 a3 where b1: "b1 = [a0, a1, a2, a3]"
    by (auto simp: length_Suc_conv numeral_eq_Suc)
  from assms(2) obtain c0 c1 where b2: "b2 = [c0, c1]"
    by (auto simp: length_Suc_conv numeral_eq_Suc)
  from assms(3) obtain d0 d1 where b3: "b3 = [d0, d1]"
    by (auto simp: length_Suc_conv numeral_eq_Suc)
  from assms(4) obtain e0 e1 where b4: "b4 = [e0, e1]"
    by (auto simp: length_Suc_conv numeral_eq_Suc)
  from assms(5) obtain f0 f1 f2 f3 f4 f5 where b5: "b5 = [f0, f1, f2, f3, f4, f5]"
    by (auto simp: length_Suc_conv numeral_eq_Suc)
  show ?thesis
    unfolding b1 b2 b3 b4 b5 by (simp add: unparse_def bth_def)
qed

text \<open>A well-formed UUID is its five groups of hex digits with the separators between.\<close>

lemma valid_uuid_split:
  assumes "valid_uuid u"
  obtains g1 g2 g3 g4 g5 where
    "u = g1 @ ''-'' @ g2 @ ''-'' @ g3 @ ''-'' @ g4 @ ''-'' @ g5"
    "length g1 = 8" "length g2 = 4" "length g3 = 4" "length g4 = 4" "length g5 = 12"
    "list_all is_hex g1" "list_all is_hex g2" "list_all is_hex g3"
    "list_all is_hex g4" "list_all is_hex g5"
proof -
  from assms have len: "length u = 36"
    and d: "u ! 8 = CHR ''-''" "u ! 13 = CHR ''-''" "u ! 18 = CHR ''-''" "u ! 23 = CHR ''-''"
    and h: "list_all is_hex (take 8 u)" "list_all is_hex (take 4 (drop 9 u))"
      "list_all is_hex (take 4 (drop 14 u))" "list_all is_hex (take 4 (drop 19 u))"
      "list_all is_hex (take 12 (drop 24 u))"
    unfolding valid_uuid_def by blast+
  have s1: "u = take 8 u @ u ! 8 # drop 9 u"
    using id_take_nth_drop [of 8 u] len by simp
  have s2: "drop 9 u = take 4 (drop 9 u) @ u ! 13 # drop 14 u"
    using id_take_nth_drop [of 4 "drop 9 u"] len by simp
  have s3: "drop 14 u = take 4 (drop 14 u) @ u ! 18 # drop 19 u"
    using id_take_nth_drop [of 4 "drop 14 u"] len by simp
  have s4: "drop 19 u = take 4 (drop 19 u) @ u ! 23 # drop 24 u"
    using id_take_nth_drop [of 4 "drop 19 u"] len by simp
  have s5: "drop 24 u = take 12 (drop 24 u)"
    using len by simp
  have "u = take 8 u @ ''-'' @ take 4 (drop 9 u) @ ''-'' @ take 4 (drop 14 u) @ ''-'' @
            take 4 (drop 19 u) @ ''-'' @ take 12 (drop 24 u)"
    using s1 s2 s3 s4 s5 d by (metis append_Cons append_Nil)
  moreover have "length (take 8 u) = 8" "length (take 4 (drop 9 u)) = 4"
    "length (take 4 (drop 14 u)) = 4" "length (take 4 (drop 19 u)) = 4"
    "length (take 12 (drop 24 u)) = 12"
    using len by simp_all
  ultimately show thesis
    using h that by blast
qed

text \<open>
  The two halves of the round trip on a well-formed UUID: the ledger id is \<open>0x\<close> and
  the 32 digits, and the way back yields the digits in lower case, regrouped.
\<close>

lemma uuidToHex_valid:
  assumes "u = g1 @ ''-'' @ g2 @ ''-'' @ g3 @ ''-'' @ g4 @ ''-'' @ g5"
    and "list_all is_hex g1" "list_all is_hex g2" "list_all is_hex g3"
      "list_all is_hex g4" "list_all is_hex g5"
  shows "uuidToHex (JString u) = Inr (''0x'' @ g1 @ g2 @ g3 @ g4 @ g5)"
  using assms by (simp add: replace_dashes_append replace_dashes_hex)

lemma toCanonical_groups:
  assumes "length g1 = 8" "length g2 = 4" "length g3 = 4" "length g4 = 4" "length g5 = 12"
    and "list_all is_hex g1" "list_all is_hex g2" "list_all is_hex g3"
      "list_all is_hex g4" "list_all is_hex g5"
  shows "toCanonical (''0x'' @ g1 @ g2 @ g3 @ g4 @ g5) =
     toLowerCase (g1 @ ''-'' @ g2 @ ''-'' @ g3 @ ''-'' @ g4 @ ''-'' @ g5)"
proof -
  have e: "even (length g1)" "even (length g2)" "even (length g3)" "even (length g4)"
    "even (length g5)"
    using assms by simp_all
  have buf: "buffer_from_hex (g1 @ g2 @ g3 @ g4 @ g5) =
      buffer_from_hex g1 @ buffer_from_hex g2 @ buffer_from_hex g3 @ buffer_from_hex g4 @
      buffer_from_hex g5"
    using assms e by (simp add: buffer_from_hex_append)
  have l: "length (buffer_from_hex g1) = 4" "length (buffer_from_hex g2) = 2"
    "length (buffer_from_hex g3) = 2" "length (buffer_from_hex g4) = 2"
    "length (buffer_from_hex g5) = 6"
    using assms e by (simp_all add: length_buffer_from_hex)
  have dash: "toLowerCase_char CHR ''-'' = CHR ''-''"
    by (simp add: toLowerCase_char_def)
  show ?thesis
    using assms e
    by (simp add: toCanonical_def buf unparse_groups [OF l] hex_of_buffer toLowerCase_def dash)
qed

text \<open>
  Claim C6, as amended. For every well-formed UUID string \<open>u\<close>, converting \<open>u\<close>
  to the ledger id and back succeeds and returns \<open>u\<close> with its hex digits in lower
  case; so it returns \<open>u\<close> itself whenever \<open>u\<close> is written in lower case.
\<close>

theorem roundtrip_lower_case:
  assumes "valid_uuid u"
  shows "\<exists>l. uuidToHex (JString u) = Inr l \<and> toCanonical l = toLowerCase u \<and>
           (toLowerCase u = u \<longrightarrow> toCanonical l = u)"
proof -
  from assms obtain g1 g2 g3 g4 g5 where
    u: "u = g1 @ ''-'' @ g2 @ ''-'' @ g3 @ ''-'' @ g4 @ ''-'' @ g5"
    and len: "length g1 = 8" "length g2 = 4" "length g3 = 4" "length g4 = 4" "length g5 = 12"
    and hex: "list_all is_hex g1" "list_all is_hex g2" "list_all is_hex g3"
      "list_all is_hex g4" "list_all is_hex g5"
    by (rule valid_uuid_split)
  have "uuidToHex (JString u) = Inr (''0x'' @ g1 @ g2 @ g3 @ g4 @ g5)"
    using u hex by (rule uuidToHex_valid)
  moreover have "toCanonical (''0x'' @ g1 @ g2 @ g3 @ g4 @ g5) = toLowerCase u"
    unfolding u using len hex by (rule toCanonical_groups)
  ultimately show ?thesis by simp
qed

text \<open>
  The round trip on the identifier of the source's own documentation.
\<close>

theorem roundtrip_lower_case_witness:
  "valid_uuid ''f55585e1-0c19-4588-832d-369cfa005640'' \<and>
   (\<exists>l. uuidToHex (JString ''f55585e1-0c19-4588-832d-369cfa005640'') = Inr l \<and>
        toCanonical l = ''f55585e1-0c19-4588-832d-369cfa005640'')"
proof -
  have v: "valid_uuid ''f55585e1-0c19-4588-832d-369cfa005640''"
    by (simp add: valid_uuid_def is_hex_def hexval_def hex_table_def)
  have "toLowerCase ''f55585e1-0c19-4588-832d-369cfa005640'' = ''f55585e1-0c19-4588-832d-369cfa005640''"
    by (simp add: toLowerCase_def toLowerCase_char_def)
  with roundtrip_lower_case [OF v] v show ?thesis by auto
qed

text \<open>
  Claim C6 as stated fails on a well-formed UUID written with upper-case digits:
  the way back yields lower case, which is not the input.
\<close>

theorem roundtrip_upper_case_counterexample:
  "valid_uuid ''F55585E1-0C19-4588-832D-369CFA005640'' \<and>
   uuidToHex (JString ''F55585E1-0C19-4588-832D-369CFA005640'') =
     Inr ''0xF55585E10C194588832D369CFA005640'' \<and>
   toCanonical ''0xF55585E10C194588832D369CFA005640'' = ''f55585e1-0c19-4588-832d-369cfa005640'' \<and>
   toCanonical ''0xF55585E10C194588832D369CFA005640'' \<noteq> ''F55585E1-0C19-4588-832D-369CFA005640''"
  by (simp add: valid_uuid_def is_hex_def hexval_def hex_table_def toCanonical_def unparse_def
      bth_def byteToHex_def hexdigit_def)

text \<open>
  Claim C7, as amended. \<^verbatim>\<open>uuidToHex\<close> validates nothing: on every string, well
  formed or not, it returns \<open>0x\<close> followed by the input without its \<open>-\<close>
  characters and never fails; on a well-formed UUID that is \<open>0x\<close> and the 32 hex
  digits.
\<close>

theorem uuidToHex_no_validation:
  "uuidToHex (JString s) = Inr (''0x'' @ filter (\<lambda>c. c \<noteq> CHR ''-'') s) \<and>
   (valid_uuid s \<longrightarrow>
      (\<exists>h. uuidToHex (JString s) = Inr (''0x'' @ h) \<and> length h = 32 \<and> list_all is_hex h))"
proof -
  have "\<exists>h. uuidToHex (JString s) = Inr (''0x'' @ h) \<and> length h = 32 \<and> list_all is_hex h"
    if "valid_uuid s"
  proof -
    from that obtain g1 g2 g3 g4 g5 where
      u: "s = g1 @ ''-'' @ g2 @ ''-'' @ g3 @ ''-'' @ g4 @ ''-'' @ g5"
      and len: "length g1 = 8" "length g2 = 4" "length g3 = 4" "length g4 = 4" "length g5 = 12"
      and hex: "list_all is_hex g1" "list_all is_hex g2" "list_all is_hex g3"
        "list_all is_hex g4" "list_all is_hex g5"
      by (rule valid_uuid_split)
    have "uuidToHex (JString s) = Inr (''0x'' @ g1 @ g2 @ g3 @ g4 @ g5)"
      using u hex by (rule uuidToHex_valid)
    moreover have "length (g1 @ g2 @ g3 @ g4 @ g5) = 32" using len by simp
    moreover have "list_all is_hex (g1 @ g2 @ g3 @ g4 @ g5)" using hex by simp
    ultimately show ?thesis by blast
  qed
  then show ?thesis by (simp add: replace_dashes_filter)
qed

text \<open>
  The conversion of the identifier of the source's own documentation.
\<close>

theorem uuidToHex_no_validation_witness:
  "valid_uuid ''f55585e1-0c19-4588-832d-369cfa005640'' \<and>
   uuidToHex (JString ''f55585e1-0c19-4588-832d-369cfa005640'') =
     Inr ''0xf55585e10c194588832d369cfa005640'' \<and>
   (\<exists>h. uuidToHex (JString ''f55585e1-0c19-4588-832d-369cfa005640'') = Inr (''0x'' @ h) \<and>
        length h = 32 \<and> list_all is_hex h)"
proof -
  have v: "valid_uuid ''f55585e1-0c19-4588-832d-369cfa005640''"
    by (simp add: valid_uuid_def is_hex_def hexval_def hex_table_def)
  from uuidToHex_no_validation [of "''f55585e1-0c19-4588-832d-369cfa005640''"] v
  show ?thesis by simp
qed

text \<open>
  Claim C7 as stated fails: a string that is not a well-formed UUID is converted, not
  rejected.
\<close>

theorem uuidToHex_malformed_counterexample:
  "\<not> valid_uuid ''not-a-uuid'' \<and> uuidToHex (JString ''not-a-uuid'') = Inr ''0xnotauuid''"
  by (simp add: valid_uuid_def)

section \<open>Transfer projection: properties\<close>

lemma example_connected:
  "contract (connect c (PluginRddn example_opts)) = Some c \<and>
   web3 (connect c (PluginRddn example_opts)) = Some ''ws://p1'' \<and>
   extWeb3 (connect c (PluginRddn example_opts)) = None \<and>
   prefix' (connect c (PluginRddn example_opts)) = ''test.'' \<and>
   address (connect c (PluginRddn example_opts)) = ''0xaaaa'' \<and>
   emitted (connect c (PluginRddn example_opts)) = [(''connect'', [])]"
  by (simp add: connect_def PluginRddn_def example_opts_def heartbeat_def emit_def)

lemma toCanonical_example:
  "toCanonical ''0xf55585e10c194588832d369cfa005640'' = ''f55585e1-0c19-4588-832d-369cfa005640''"
  by (simp add: toCanonical_def unparse_def bth_def byteToHex_def hexdigit_def hexval_def
      hex_table_def)

lemma example_plugin_fields:
  "contract example_plugin = Some (store_of (example_raw ''0xaaaa'' ''0xbbbb'' 0 0))"
  "web3 example_plugin = Some ''ws://p1''"
  "extWeb3 example_plugin = None"
  "prefix' example_plugin = ''test.''"
  "address example_plugin = ''0xaaaa''"
  "provider example_plugin = ''ws://p1''"
  "primaryProvider example_plugin = ''ws://p1''"
  "secondaryProvider example_plugin = ''ws://p2''"
  "isProcessing example_plugin"
  "emitted example_plugin = [(''connect'', [])]"
  "attempts example_plugin = [''ws://p1'']"
  "closed example_plugin = []"
  "intervals example_plugin = [5000]"
  "timers example_plugin = []"
  "now example_plugin = 0"
  "submitter_calls example_plugin = []"
  "nonce_reads example_plugin = 0"
  "sent example_plugin = []"
  by (simp_all add: example_plugin_def connect_def PluginRddn_def example_opts_def
      heartbeat_def emit_def)

lemma example_resolved:
  "getRddnTransfer example_fmt example_plugin ''0xf55585e10c194588832d369cfa005640'' =
     Inr \<lparr> id' = ''f55585e1-0c19-4588-832d-369cfa005640'', from' = ''test.0xaaaa'',
           to' = ''test.0xbbbb'', amount = JString ''1000'', ilp = [],
           executionCondition = [], expiresAt = ''2017-07-14T02:40:00.000Z'',
           custom = CustomObject ''JPY-1'' (Some ''deposit''), state = Some ''prepare'',
           ledger = None, direction = None \<rparr>"
  by (simp add: getRddnTransfer_def example_plugin_fields store_of_def example_raw_def
      zero_address_def toISOString_def stateToName_def directionToName_def array_index_def
      hexToAccount_def example_fmt_def toCanonical_example [unfolded toCanonical_def, simplified])

lemma example_by_uuid:
  "getTransfer_by_uuid example_fmt example_plugin (JString example_uuid) =
     getRddnTransfer example_fmt example_plugin ''0xf55585e10c194588832d369cfa005640''"
  by (simp add: getTransfer_by_uuid_def example_uuid_def)

text \<open>
  Claim C5, as amended. For every raw escrow record whose \<open>from\<close> field is the
  zero-address sentinel, the projection does not throw and returns the "not found"
  Transfer: state is the empty string, amount is 0 and every other field is the empty
  string, except \<open>id\<close>, which is the canonical form of the ledger id that was asked
  for.
\<close>

theorem not_found_projection:
  assumes "contract p = Some c" and "getTransfer c id_hex = Inr r"
    and "raw_from r = zero_address"
  shows "getRddnTransfer fmt p id_hex =
     Inr \<lparr> id' = toCanonical id_hex, from' = [], to' = [], amount = JNumber 0, ilp = [],
           executionCondition = [], expiresAt = [], custom = CustomString [],
           state = Some [], ledger = None, direction = None \<rparr>"
  using assms by (simp add: getRddnTransfer_def toCanonical_def)

text \<open>The projection of a record that is not in the store, on a connected adapter.\<close>

theorem not_found_projection_witness:
  "getRddnTransfer example_fmt
     (connect (store_of (example_raw zero_address zero_address 0 0)) (PluginRddn example_opts))
     ''0xf55585e10c194588832d369cfa005640'' =
   Inr \<lparr> id' = ''f55585e1-0c19-4588-832d-369cfa005640'', from' = [], to' = [],
         amount = JNumber 0, ilp = [], executionCondition = [], expiresAt = [],
         custom = CustomString [], state = Some [], ledger = None, direction = None \<rparr>"
proof -
  let ?c = "store_of (example_raw zero_address zero_address 0 0)"
  have a: "contract (connect ?c (PluginRddn example_opts)) = Some ?c"
    using example_connected by blast
  have b: "getTransfer ?c ''0xf55585e10c194588832d369cfa005640'' =
      Inr (example_raw zero_address zero_address 0 0)"
    by (simp add: store_of_def)
  have c: "raw_from (example_raw zero_address zero_address 0 0) = zero_address"
    by (simp add: example_raw_def)
  show ?thesis
    using not_found_projection [OF a b c, of example_fmt] by (simp add: toCanonical_example)
qed

text \<open>
  Claim C5 as stated fails on the \<open>id\<close> field: the "not found" Transfer of a record
  with the zero address carries a non-empty string there.
\<close>

theorem not_found_id_counterexample:
  "\<exists>t. getRddnTransfer example_fmt
          (connect (store_of (example_raw zero_address zero_address 0 0)) (PluginRddn example_opts))
          ''0xf55585e10c194588832d369cfa005640'' = Inr t \<and>
       state t = Some [] \<and> id' t = ''f55585e1-0c19-4588-832d-369cfa005640'' \<and> id' t \<noteq> []"
  by (simp add: getRddnTransfer_def example_connected store_of_def example_raw_def
      toCanonical_example [unfolded toCanonical_def, simplified])

lemma stateToName_cases:
  "stateToName 0 = Some ''prepare'' \<and> stateToName 1 = Some ''fulfill'' \<and>
   stateToName 2 = Some ''abort'' \<and> (3 \<le> n \<longrightarrow> stateToName n = None)"
  by (simp add: stateToName_def array_index_def)

lemma directionToName_cases:
  "directionToName 0 = Some ''deposit'' \<and> directionToName 1 = Some ''withdraw'' \<and>
   (2 \<le> n \<longrightarrow> directionToName n = None)"
  by (simp add: directionToName_def array_index_def)

text \<open>
  Claim C8, as amended. During transfer projection a state code outside \<open>{0,1,2}\<close> or
  a direction code outside \<open>{0,1}\<close> raises no error: when the record is found, the
  reads succeed and the expiry is a representable date, the projection returns a
  Transfer whose state is the table's entry for the state code and whose
  \<open>custom.direction\<close> is the table's entry for the direction code, and that entry is
  undefined for a code out of range.
\<close>

theorem projection_code_lookup:
  assumes "contract p = Some c" and "getTransfer c id_hex = Inr r"
    and "raw_from r \<noteq> zero_address"
    and "getMoneyIdByTransferId c id_hex = Inr m" and "getIlpPacket c id_hex = Inr k"
    and "int (raw_expiry r) * 1000 \<le> 8640000000000000"
  shows "\<exists>t. getRddnTransfer fmt p id_hex = Inr t \<and>
           state t = stateToName (raw_state r) \<and>
           custom t = CustomObject m (directionToName (raw_direction r)) \<and>
           (3 \<le> raw_state r \<longrightarrow> state t = None) \<and>
           (2 \<le> raw_direction r \<longrightarrow> custom t = CustomObject m None)"
  using assms
  by (simp add: getRddnTransfer_def toISOString_def stateToName_def directionToName_def
      array_index_def)

text \<open>The projection of a record with state code 3 and direction code 2.\<close>

theorem projection_code_lookup_witness:
  "\<exists>t. getRddnTransfer example_fmt
          (connect (store_of (example_raw ''0xaaaa'' ''0xbbbb'' 3 2)) (PluginRddn example_opts))
          ''0xf55585e10c194588832d369cfa005640'' = Inr t \<and>
       state t = None \<and> custom t = CustomObject ''JPY-1'' None"
proof -
  let ?r = "example_raw ''0xaaaa'' ''0xbbbb'' 3 2"
  let ?c = "store_of ?r"
  have a: "contract (connect ?c (PluginRddn example_opts)) = Some ?c"
    using example_connected by blast
  have b: "getTransfer ?c ''0xf55585e10c194588832d369cfa005640'' = Inr ?r"
    and d: "getMoneyIdByTransferId ?c ''0xf55585e10c194588832d369cfa005640'' = Inr ''JPY-1''"
    and e: "getIlpPacket ?c ''0xf55585e10c194588832d369cfa005640'' = Inr ''0x''"
    by (simp_all add: store_of_def)
  have f: "raw_from ?r \<noteq> zero_address"
    and g: "int (raw_expiry ?r) * 1000 \<le> 8640000000000000"
    and h: "raw_state ?r = 3" "raw_direction ?r = 2"
    by (simp_all add: example_raw_def zero_address_def)
  show ?thesis
    using projection_code_lookup [OF a b f d e g, of example_fmt] h by auto
qed

text \<open>
  Claim C8 as stated fails: a record with state code 3 and direction code 2 is
  projected to a Transfer with undefined state and direction; no error is raised.
\<close>

theorem out_of_range_code_counterexample:
  "\<exists>t. getRddnTransfer example_fmt
          (connect (store_of (example_raw ''0xaaaa'' ''0xbbbb'' 3 2)) (PluginRddn example_opts))
          ''0xf55585e10c194588832d369cfa005640'' = Inr t \<and>
       state t = None \<and> custom t = CustomObject ''JPY-1'' None \<and>
       from' t = ''test.0xaaaa'' \<and> amount t = JString ''1000''"
  by (simp add: getRddnTransfer_def example_connected store_of_def example_raw_def
      zero_address_def toISOString_def stateToName_def directionToName_def array_index_def
      hexToAccount_def)

section \<open>Dispatch: properties\<close>

lemma resolved_fields:
  "getRddnTransfer fmt p i = Inr t \<Longrightarrow> direction t = None \<and> ledger t = None"
  by (auto simp: getRddnTransfer_def Let_def split: option.splits sum.splits if_splits)

text \<open>
  Claim C1, as amended. Dispatch emits exactly one event and changes nothing else of the
  adapter. If \<open>transfer.to\<close> is the self account the event is \<open>incoming_{state}\<close>;
  otherwise, if \<open>transfer.from\<close> is the self account, it is \<open>outgoing_{state}\<close>;
  both carry the Transfer with \<open>ledger\<close> stamped with the address prefix and, only
  when the state is \<open>fulfill\<close>, the fulfillment and the transfer's payload. If
  neither matches the event is \<open>event_{state}\<close>, carrying the Transfer unchanged
  (plus the fulfillment when the state is \<open>fulfill\<close>). A Transfer resolved by the
  \<open>Update\<close> handler has no direction field, and dispatch sets none.
\<close>

theorem processUpdate_dispatch:
  "\<exists>ev. processUpdate p t f = p\<lparr>emitted := emitted p @ [ev]\<rparr> \<and>
     (to' t = getAccount p \<longrightarrow>
        ev = (''incoming_'' @ js_string (state t),
              ArgTransfer (t\<lparr>ledger := Some (prefix' p)\<rparr>) #
              (if state t = Some ''fulfill'' then [ArgValue f, ArgValue (JString (ilp t))]
               else []))) \<and>
     (to' t \<noteq> getAccount p \<and> from' t = getAccount p \<longrightarrow>
        ev = (''outgoing_'' @ js_string (state t),
              ArgTransfer (t\<lparr>ledger := Some (prefix' p)\<rparr>) #
              (if state t = Some ''fulfill'' then [ArgValue f, ArgValue (JString (ilp t))]
               else []))) \<and>
     (to' t \<noteq> getAccount p \<and> from' t \<noteq> getAccount p \<longrightarrow>
        ev = (''event_'' @ js_string (state t),
              ArgTransfer t # (if state t = Some ''fulfill'' then [ArgValue f] else []))) \<and>
     (getRddnTransfer fmt p i = Inr t \<longrightarrow>
        on_Update fmt p i = (Inr (), processUpdate p t JUndefined) \<and> direction t = None)"
proof -
  have "getRddnTransfer fmt p i = Inr t \<longrightarrow>
        on_Update fmt p i = (Inr (), processUpdate p t JUndefined) \<and> direction t = None"
    using resolved_fields [of fmt p i t] by (simp add: on_Update_def)
  then show ?thesis
    by (simp add: processUpdate_def emit_def js_string_def)
qed

text \<open>
  Dispatch on a connected adapter with account \<open>test.0xaaaa\<close>: an \<open>Update\<close>
  for a prepared transfer from that account, a fulfilled transfer to it, and a
  transfer between two other accounts.
\<close>

theorem processUpdate_dispatch_witness:
  "(\<exists>t p'. getRddnTransfer example_fmt example_plugin ''0xf55585e10c194588832d369cfa005640'' = Inr t \<and>
      from' t = getAccount example_plugin \<and> to' t \<noteq> getAccount example_plugin \<and>
      on_Update example_fmt example_plugin ''0xf55585e10c194588832d369cfa005640'' = (Inr (), p') \<and>
      emitted p' = [(''connect'', []),
                    (''outgoing_prepare'', [ArgTransfer (t\<lparr>ledger := Some ''test.''\<rparr>)])]) \<and>
   emitted (processUpdate example_plugin
      (example_transfer\<lparr>from' := ''test.0xbbbb'', to' := ''test.0xaaaa'', state := Some ''fulfill''\<rparr>)
      (JString ''ZmY'')) =
     [(''connect'', []),
      (''incoming_fulfill'',
        [ArgTransfer (example_transfer\<lparr>from' := ''test.0xbbbb'', to' := ''test.0xaaaa'',
           state := Some ''fulfill'', ledger := Some ''test.''\<rparr>),
         ArgValue (JString ''ZmY''), ArgValue (JString [])])] \<and>
   emitted (processUpdate example_plugin (example_transfer\<lparr>from' := ''test.0xbbbb'', to' := ''test.0xcccc''\<rparr>)
      JUndefined) =
     [(''connect'', []),
      (''event_prepare'', [ArgTransfer (example_transfer\<lparr>from' := ''test.0xbbbb'', to' := ''test.0xcccc''\<rparr>)])]"
proof -
  let ?i = "''0xf55585e10c194588832d369cfa005640''"
  obtain t where t: "getRddnTransfer example_fmt example_plugin ?i = Inr t"
    and ft: "from' t = ''test.0xaaaa''" "to' t = ''test.0xbbbb''" "state t = Some ''prepare''"
    using example_resolved by simp
  have acct: "getAccount example_plugin = ''test.0xaaaa''"
    by (simp add: getAccount_def example_plugin_fields)
  have 1: "\<exists>t p'. getRddnTransfer example_fmt example_plugin ?i = Inr t \<and>
      from' t = getAccount example_plugin \<and> to' t \<noteq> getAccount example_plugin \<and>
      on_Update example_fmt example_plugin ?i = (Inr (), p') \<and>
      emitted p' = [(''connect'', []),
                    (''outgoing_prepare'', [ArgTransfer (t\<lparr>ledger := Some ''test.''\<rparr>)])]"
    using processUpdate_dispatch [of example_plugin t JUndefined example_fmt ?i] t ft acct
    by (auto simp: example_plugin_fields js_string_def)
  have 2: "emitted (processUpdate example_plugin
      (example_transfer\<lparr>from' := ''test.0xbbbb'', to' := ''test.0xaaaa'', state := Some ''fulfill''\<rparr>)
      (JString ''ZmY'')) =
     [(''connect'', []),
      (''incoming_fulfill'',
        [ArgTransfer (example_transfer\<lparr>from' := ''test.0xbbbb'', to' := ''test.0xaaaa'',
           state := Some ''fulfill'', ledger := Some ''test.''\<rparr>),
         ArgValue (JString ''ZmY''), ArgValue (JString [])])]"
    using processUpdate_dispatch [of example_plugin
        "example_transfer\<lparr>from' := ''test.0xbbbb'', to' := ''test.0xaaaa'', state := Some ''fulfill''\<rparr>"
        "JString ''ZmY''" example_fmt ?i] acct
    by (auto simp: example_plugin_fields js_string_def example_transfer_def)
  have 3: "emitted (processUpdate example_plugin (example_transfer\<lparr>from' := ''test.0xbbbb'', to' := ''test.0xcccc''\<rparr>)
      JUndefined) =
     [(''connect'', []),
      (''event_prepare'', [ArgTransfer (example_transfer\<lparr>from' := ''test.0xbbbb'', to' := ''test.0xcccc''\<rparr>)])]"
    using processUpdate_dispatch [of example_plugin
        "example_transfer\<lparr>from' := ''test.0xbbbb'', to' := ''test.0xcccc''\<rparr>"
        JUndefined example_fmt ?i] acct
    by (auto simp: example_plugin_fields js_string_def example_transfer_def)
  from 1 2 3 show ?thesis by blast
qed

text \<open>
  Claim C1 as stated fails when both ends of the transfer are the self account:
  \<open>transfer.from\<close> equals the self account, yet the one event is
  \<open>incoming_prepare\<close>, not \<open>outgoing_prepare\<close>.
\<close>

theorem self_transfer_counterexample:
  "\<exists>t p'. getRddnTransfer example_fmt
            (connect (store_of (example_raw ''0xaaaa'' ''0xaaaa'' 0 0)) (PluginRddn example_opts))
            ''0xf55585e10c194588832d369cfa005640'' = Inr t \<and>
     from' t = getAccount (connect (store_of (example_raw ''0xaaaa'' ''0xaaaa'' 0 0)) (PluginRddn example_opts)) \<and>
     on_Update example_fmt
       (connect (store_of (example_raw ''0xaaaa'' ''0xaaaa'' 0 0)) (PluginRddn example_opts))
       ''0xf55585e10c194588832d369cfa005640'' = (Inr (), p') \<and>
     map fst (emitted p') = [''connect'', ''incoming_prepare'']"
  by (simp add: on_Update_def getRddnTransfer_def example_connected store_of_def example_raw_def
      zero_address_def toISOString_def stateToName_def array_index_def hexToAccount_def
      processUpdate_def getAccount_def emit_def js_string_def)

section \<open>Forced re-emission: properties\<close>

text \<open>
  A resolution error propagates; and where the host has bound the global \<^verbatim>\<open>_\<close> to
  lodash, the allow-lists count as a directional match, \<open>incoming\<close> taking
  precedence.
\<close>

lemma forceEmitPrepare_resolution_error:
  "getTransfer_by_uuid fmt p i = Inl e \<Longrightarrow> forceEmitPrepare lodash fmt p i = (Inl e, p)"
  by (simp add: forceEmitPrepare_def)

lemma forceEmitPrepare_with_lodash:
  assumes "getTransfer_by_uuid fmt p i = Inr t"
  shows "forceEmitPrepare True fmt p i =
     (let is_out = (from' t = getAccount p \<or>
                    (case outgoingList p of None \<Rightarrow> False
                     | Some xs \<Rightarrow> toLowerCase (from' t) \<in> set xs));
          is_in = (to' t = getAccount p \<or>
                   (case incomingList p of None \<Rightarrow> False
                    | Some xs \<Rightarrow> toLowerCase (to' t) \<in> set xs))
      in if is_in then
           (Inr True,
            emit p ''incoming_prepare'' [ArgTransfer (t\<lparr>direction := Some ''incoming''\<rparr>)])
         else if is_out then
           (Inr True,
            emit p ''outgoing_prepare'' [ArgTransfer (t\<lparr>direction := Some ''outgoing''\<rparr>)])
         else (Inr False, p))"
  using assms by (auto simp: forceEmitPrepare_def lodash_includes_def Let_def)

text \<open>
  Claim C9, what the code does. plugin.js never binds \<^verbatim>\<open>_\<close>, so unless the
  host defines it globally \<^verbatim>\<open>forceEmitPrepare\<close> throws a ReferenceError and emits
  nothing for every resolved transfer that does not have the self account at both
  ends: neither \<open>true\<close> with the \<open>outgoing_prepare\<close> or \<open>incoming_prepare\<close>
  event nor \<open>false\<close> is ever returned for such a transfer.
\<close>

theorem forceEmitPrepare_unbound_lodash:
  assumes "getTransfer_by_uuid fmt p i = Inr t"
    and "from' t \<noteq> getAccount p \<or> to' t \<noteq> getAccount p"
  shows "forceEmitPrepare False fmt p i = (Inl (ReferenceError ''_ is not defined''), p)"
  using assms by (auto simp: forceEmitPrepare_def lodash_includes_def)

text \<open>
  For a prepared transfer from the self account to another one
  \<^verbatim>\<open>forceEmitPrepare\<close> throws, while \<^verbatim>\<open>forceEmitFulfill\<close>, which has the same
  direction tests without the allow-lists, finds the direction and returns
  \<open>true\<close>.
\<close>

theorem forceEmitPrepare_unbound_lodash_witness:
  "(\<exists>t. getTransfer_by_uuid example_fmt example_plugin (JString example_uuid) = Inr t \<and>
        from' t = getAccount example_plugin \<and> to' t \<noteq> getAccount example_plugin \<and>
        state t = Some ''prepare'') \<and>
   forceEmitPrepare False example_fmt example_plugin (JString example_uuid) =
     (Inl (ReferenceError ''_ is not defined''), example_plugin) \<and>
   fst (forceEmitFulfill example_fmt example_plugin (JString example_uuid) (JString ''ZmY'')
          (JString [])) = Inr True"
proof -
  obtain t where t: "getTransfer_by_uuid example_fmt example_plugin (JString example_uuid) = Inr t"
    and ft: "from' t = ''test.0xaaaa''" "to' t = ''test.0xbbbb''" "state t = Some ''prepare''"
    using example_resolved example_by_uuid by simp
  have acct: "getAccount example_plugin = ''test.0xaaaa''"
    by (simp add: getAccount_def example_plugin_fields)
  have ne: "from' t \<noteq> getAccount example_plugin \<or> to' t \<noteq> getAccount example_plugin"
    using ft acct by simp
  have "fst (forceEmitFulfill example_fmt example_plugin (JString example_uuid) (JString ''ZmY'')
          (JString [])) = Inr True"
    using t ft acct by (simp add: forceEmitFulfill_def)
  with forceEmitPrepare_unbound_lodash [OF t ne] t ft acct show ?thesis by simp
qed

section \<open>Submission and retry: properties\<close>

lemma known_transaction_patterns:
  "indexOf ''known transaction: f8'' ''replacement transaction underpriced'' = - 1"
  "indexOf ''known transaction: f8'' ''known transaction'' = 0"
  by (simp_all add: indexOf_def)

text \<open>
  Claim C2, what the code does. A node rejection whose text is
  \<open>known transaction: f8\<close> is reclassified as \<open>PastSequenceError\<close> by
  \<^verbatim>\<open>_fulfillCondition\<close> and \<^verbatim>\<open>_rejectIncomingTransfer\<close>, but \<^verbatim>\<open>sendTransfer\<close>,
  whose catch block tests for \<open>replacement transaction underpriced\<close> only, hands
  the rejection on as it is.
\<close>

theorem sendTransfer_known_transaction:
  "fst (sendTransfer (node_of (\<lambda>k. Inl (Error ''known transaction: f8''))) example_plugin
          example_transfer) = Inl (Error ''known transaction: f8'') \<and>
   fst (fulfillCondition' (node_of (\<lambda>k. Inl (Error ''known transaction: f8''))) example_plugin
          (JString example_uuid) ''ZmY'') = Inl PastSequenceError \<and>
   fst (rejectIncomingTransfer' (node_of (\<lambda>k. Inl (Error ''known transaction: f8'')))
          example_plugin (JString example_uuid)) = Inl PastSequenceError"
  by (simp add: sendTransfer_def fulfillCondition'_def rejectIncomingTransfer'_def
      Transaction_sendTransfer_def Transaction_fulfillCondition_def
      Transaction_rejectIncomingTransfer_def sign_and_send_def web3_or_ext_def
      example_plugin_fields node_of_def store_of_def example_transfer_def
      known_transaction_patterns)

text \<open>
  Claim C10. With neither a local nor an external node handle bound,
  \<^verbatim>\<open>sendTransfer\<close> fails with \<open>must be connected\<close> and leaves the adapter as it
  was: the submitter is not entered and nothing is written. In the same state
  \<^verbatim>\<open>_fulfillCondition\<close> and \<^verbatim>\<open>_rejectIncomingTransfer\<close> make no such check: they
  enter the submitter of transaction.js, and the error they end with is raised in
  there (no write reaches the node, as there is no handle to write through).
\<close>

theorem connectivity_precheck:
  assumes "web3 p = None" and "extWeb3 p = None"
  shows "sendTransfer nd p t = (Inl (Error ''must be connected''), p) \<and>
    (\<exists>e p'. fulfillCondition' nd p i f = (Inl e, p') \<and>
        submitter_calls p' = submitter_calls p @ [''fulfillCondition''] \<and> sent p' = sent p) \<and>
    (\<exists>e p'. rejectIncomingTransfer' nd p i = (Inl e, p') \<and>
        submitter_calls p' = submitter_calls p @ [''rejectIncomingTransfer''] \<and>
        sent p' = sent p)"
proof -
  let ?pf = "p\<lparr>submitter_calls := submitter_calls p @ [''fulfillCondition'']\<rparr>"
  let ?pr = "p\<lparr>submitter_calls := submitter_calls p @ [''rejectIncomingTransfer'']\<rparr>"
  have h: "web3_or_ext p = None"
    using assms by (simp add: web3_or_ext_def)
  have a: "sendTransfer nd p t = (Inl (Error ''must be connected''), p)"
    using assms by (simp add: sendTransfer_def)
  have "\<exists>e. Transaction_fulfillCondition nd p (contract p) i f (address p) (privateKey p)
       None (private' p) = (Inl e, ?pf)"
    by (auto simp: Transaction_fulfillCondition_def sign_and_send_def Let_def
        split: option.splits sum.splits)
  then obtain e1 where b: "Transaction_fulfillCondition nd p (contract p) i f (address p)
       (privateKey p) None (private' p) = (Inl e1, ?pf)"
    by blast
  have "\<exists>e. Transaction_rejectIncomingTransfer nd p (contract p) i (address p) (privateKey p)
       None (private' p) = (Inl e, ?pr)"
    by (auto simp: Transaction_rejectIncomingTransfer_def sign_and_send_def Let_def
        split: option.splits sum.splits)
  then obtain e2 where c: "Transaction_rejectIncomingTransfer nd p (contract p) i (address p)
       (privateKey p) None (private' p) = (Inl e2, ?pr)"
    by blast
  have b': "\<exists>e p'. fulfillCondition' nd p i f = (Inl e, p') \<and>
        submitter_calls p' = submitter_calls p @ [''fulfillCondition''] \<and> sent p' = sent p"
    by (simp add: fulfillCondition'_def h b Let_def)
  have c': "\<exists>e p'. rejectIncomingTransfer' nd p i = (Inl e, p') \<and>
        submitter_calls p' = submitter_calls p @ [''rejectIncomingTransfer''] \<and>
        sent p' = sent p"
    by (simp add: rejectIncomingTransfer'_def h c Let_def)
  from a b' c' show ?thesis by blast
qed

text \<open>The three operations on a freshly constructed adapter, before any \<^verbatim>\<open>connect\<close>.\<close>

theorem connectivity_precheck_witness:
  "web3 (PluginRddn example_opts) = None \<and> extWeb3 (PluginRddn example_opts) = None \<and>
   sendTransfer (node_of (\<lambda>k. Inr ())) (PluginRddn example_opts) example_transfer =
     (Inl (Error ''must be connected''), PluginRddn example_opts) \<and>
   (\<exists>e p'. fulfillCondition' (node_of (\<lambda>k. Inr ())) (PluginRddn example_opts)
              (JString example_uuid) ''ZmY'' = (Inl e, p') \<and>
        submitter_calls p' = [''fulfillCondition''] \<and> sent p' = []) \<and>
   (\<exists>e p'. rejectIncomingTransfer' (node_of (\<lambda>k. Inr ())) (PluginRddn example_opts)
              (JString example_uuid) = (Inl e, p') \<and>
        submitter_calls p' = [''rejectIncomingTransfer''] \<and> sent p' = [])"
proof -
  have a: "web3 (PluginRddn example_opts) = None"
    and b: "extWeb3 (PluginRddn example_opts) = None"
    and c: "submitter_calls (PluginRddn example_opts) = []" "sent (PluginRddn example_opts) = []"
    by (simp_all add: PluginRddn_def)
  show ?thesis
    using connectivity_precheck [OF a b, of "node_of (\<lambda>k. Inr ())" example_transfer
        "JString example_uuid" "''ZmY''"] a b c
    by simp
qed

text \<open>
  The parts of the retry loop that do not involve time: an attempt that succeeds or
  fails with another error ends the call with that outcome at once, and an attempt that
  fails with \<open>PastSequenceError\<close> starts a 500 ms timer and issues the same call
  again.
\<close>

lemma fulfillCondition_returns:
  assumes "fulfillCondition' nd p i f = (r, p')" and "r \<noteq> Inl PastSequenceError"
  shows "fulfillCondition nd p i f a = Some (r, p')"
  using assms by (subst fulfillCondition.simps) (auto split: sum.splits)

lemma fulfillCondition_retries:
  assumes "fulfillCondition' nd p i f = (Inl PastSequenceError, p')"
  shows "fulfillCondition nd p i f a =
     fulfillCondition nd (p'\<lparr>timers := timers p' @ [now p' + 500]\<rparr>) i f a"
  using assms by (subst fulfillCondition.simps) (simp add: sleep_def)

lemma rejectIncomingTransfer_returns:
  assumes "rejectIncomingTransfer' nd p i = (r, p')" and "r \<noteq> Inl PastSequenceError"
  shows "rejectIncomingTransfer nd p i = Some (r, p')"
  using assms by (subst rejectIncomingTransfer.simps) (auto split: sum.splits)

lemma rejectIncomingTransfer_retries:
  assumes "rejectIncomingTransfer' nd p i = (Inl PastSequenceError, p')"
  shows "rejectIncomingTransfer nd p i =
     rejectIncomingTransfer nd (p'\<lparr>timers := timers p' @ [now p' + 500]\<rparr>) i"
  using assms by (subst rejectIncomingTransfer.simps) (simp add: sleep_def)

text \<open>
  However many attempts end in a conflict, the call is issued again; the first attempt
  with another outcome ends the call with that outcome.
\<close>

lemma fulfillCondition_after_conflicts:
  assumes "\<And>k. k < n \<Longrightarrow>
     fst (fulfillCondition' nd ((fulfill_retry_state nd i f ^^ k) p) i f) = Inl PastSequenceError"
  shows "fulfillCondition nd p i f a =
     fulfillCondition nd ((fulfill_retry_state nd i f ^^ n) p) i f a"
  using assms
proof (induction n)
  case 0
  then show ?case by simp
next
  case (Suc n)
  let ?q = "(fulfill_retry_state nd i f ^^ n) p"
  have "fulfillCondition nd p i f a = fulfillCondition nd ?q i f a"
    using Suc by simp
  moreover have "fst (fulfillCondition' nd ?q i f) = Inl PastSequenceError"
    using Suc.prems by simp
  then obtain q' where q': "fulfillCondition' nd ?q i f = (Inl PastSequenceError, q')"
    by (cases "fulfillCondition' nd ?q i f") simp
  then have "fulfillCondition nd ?q i f a =
      fulfillCondition nd (fulfill_retry_state nd i f ?q) i f a"
    using fulfillCondition_retries [OF q', of a] by (simp add: fulfill_retry_state_def sleep_def)
  ultimately show ?case by simp
qed

lemma fulfillCondition_converges:
  assumes "\<And>k. k < n \<Longrightarrow>
     fst (fulfillCondition' nd ((fulfill_retry_state nd i f ^^ k) p) i f) = Inl PastSequenceError"
    and "fulfillCondition' nd ((fulfill_retry_state nd i f ^^ n) p) i f = (r, p')"
    and "r \<noteq> Inl PastSequenceError"
  shows "fulfillCondition nd p i f a = Some (r, p')"
  using fulfillCondition_after_conflicts [OF assms(1)] fulfillCondition_returns [OF assms(2,3)]
  by simp

text \<open>
  Claim C3, what the code does. The first write is rejected as a known transaction,
  the second is accepted. \<^verbatim>\<open>fulfillCondition\<close> returns with both writes issued at
  time 0: the 500 ms timer was started and is still pending when the call has already
  succeeded, because \<^verbatim>\<open>this._sleep(500)\<close> is not awaited. The coordinator that awaits
  the backoff issues the second write at time 500.
\<close>

theorem retry_without_backoff:
  "(\<exists>p'. fulfillCondition (node_of conflict_once) example_plugin (JString example_uuid)
            ''ZmY'' [] = Some (Inr (), p') \<and>
        map fst (sent p') = [0, 0] \<and> timers p' = [500] \<and> now p' = 0) \<and>
   (\<exists>p'. fulfillCondition_with_backoff (node_of conflict_once) example_plugin
            (JString example_uuid) ''ZmY'' [] = Some (Inr (), p') \<and>
        map fst (sent p') = [0, 500] \<and> timers p' = [500] \<and> now p' = 500)"
proof -
  let ?nd = "node_of conflict_once"
  let ?p1 = "example_plugin\<lparr>submitter_calls := [''fulfillCondition''], nonce_reads := 1,
      sent := [(0, ''0xf8'')]\<rparr>"
  let ?q = "?p1\<lparr>timers := timers ?p1 @ [now ?p1 + 500]\<rparr>"
  let ?p2 = "?q\<lparr>submitter_calls := [''fulfillCondition'', ''fulfillCondition''],
      nonce_reads := 2, sent := [(0, ''0xf8''), (0, ''0xf8'')]\<rparr>"
  let ?w = "await_timer ?q 0"
  let ?p3 = "?w\<lparr>submitter_calls := [''fulfillCondition'', ''fulfillCondition''],
      nonce_reads := 2, sent := [(0, ''0xf8''), (500, ''0xf8'')]\<rparr>"
  have first: "fulfillCondition' ?nd example_plugin (JString example_uuid) ''ZmY'' =
      (Inl PastSequenceError, ?p1)"
    by (simp add: fulfillCondition'_def Transaction_fulfillCondition_def sign_and_send_def
        web3_or_ext_def example_plugin_fields node_of_def store_of_def conflict_once_def
        known_transaction_patterns)
  have second: "fulfillCondition' ?nd ?q (JString example_uuid) ''ZmY'' = (Inr (), ?p2)"
    by (simp add: fulfillCondition'_def Transaction_fulfillCondition_def sign_and_send_def
        web3_or_ext_def example_plugin_fields node_of_def store_of_def conflict_once_def)
  have code: "fulfillCondition ?nd example_plugin (JString example_uuid) ''ZmY'' [] =
      Some (Inr (), ?p2)"
    using fulfillCondition_retries [OF first] fulfillCondition_returns [OF second] by simp
  have code_facts: "map fst (sent ?p2) = [0, 0]" "timers ?p2 = [500]" "now ?p2 = 0"
    by (simp_all add: example_plugin_fields)
  have third: "fulfillCondition' ?nd ?w (JString example_uuid) ''ZmY'' = (Inr (), ?p3)"
    by (simp add: fulfillCondition'_def Transaction_fulfillCondition_def sign_and_send_def
        web3_or_ext_def example_plugin_fields node_of_def store_of_def conflict_once_def
        await_timer_def)
  have "fulfillCondition_with_backoff ?nd ?w (JString example_uuid) ''ZmY'' [] =
      Some (Inr (), ?p3)"
    using third by (subst fulfillCondition_with_backoff.simps) simp
  then have spec: "fulfillCondition_with_backoff ?nd example_plugin (JString example_uuid)
      ''ZmY'' [] = Some (Inr (), ?p3)"
    using first
    by (subst fulfillCondition_with_backoff.simps) (simp add: sleep_def example_plugin_fields)
  have spec_facts: "map fst (sent ?p3) = [0, 500]" "timers ?p3 = [500]" "now ?p3 = 500"
    by (simp_all add: example_plugin_fields await_timer_def)
  show ?thesis
    using code code_facts spec spec_facts by simp
qed

section \<open>Connection manager: properties\<close>

text \<open>
  Claim C4. The probe is started with a period of 5 s, once. On a probe tick of a
  manager connected to the primary endpoint whose liveness query fails, the current
  link is closed, the active endpoint becomes the secondary and a connection attempt is
  made at the secondary; a tick whose liveness query succeeds changes nothing. On every
  tick while disconnected the active endpoint flips (primary to secondary, anything
  else to primary) and a connection attempt is made at the new active endpoint.
\<close>

theorem heartbeat_failover:
  "(web3 p = Some w \<and> provider p = primaryProvider p \<longrightarrow>
      heartbeat_tick False p =
        p\<lparr>provider := secondaryProvider p, web3 := None, closed := closed p @ [w],
          attempts := attempts p @ [secondaryProvider p]\<rparr>) \<and>
   (web3 p = Some w \<longrightarrow> heartbeat_tick True p = p) \<and>
   (web3 p = None \<longrightarrow>
      heartbeat_tick listening p =
        (let other = (if provider p = primaryProvider p then secondaryProvider p
                      else primaryProvider p)
         in p\<lparr>provider := other, attempts := attempts p @ [other]\<rparr>)) \<and>
   (extWeb3 p = None \<and> \<not> isProcessing p \<longrightarrow>
      intervals (heartbeat p) = intervals p @ [5000] \<and>
      heartbeat (heartbeat p) = heartbeat p)"
  by (simp add: heartbeat_tick_def heartbeat_def Let_def)

text \<open>
  The failover scenario: connected to \<open>ws://p1\<close>, the liveness query fails; after
  the tick the active endpoint is \<open>ws://p2\<close> and the new attempt went there; the
  next tick, still disconnected, flips back to \<open>ws://p1\<close>.
\<close>

theorem heartbeat_failover_witness:
  "web3 example_plugin = Some ''ws://p1'' \<and> provider example_plugin = ''ws://p1'' \<and>
   primaryProvider example_plugin = ''ws://p1'' \<and>
   intervals (heartbeat (PluginRddn example_opts)) = [5000] \<and>
   heartbeat_tick True example_plugin = example_plugin \<and>
   provider (heartbeat_tick False example_plugin) = ''ws://p2'' \<and>
   web3 (heartbeat_tick False example_plugin) = None \<and>
   closed (heartbeat_tick False example_plugin) = [''ws://p1''] \<and>
   attempts (heartbeat_tick False example_plugin) = [''ws://p1'', ''ws://p2''] \<and>
   provider (heartbeat_tick True (heartbeat_tick False example_plugin)) = ''ws://p1'' \<and>
   attempts (heartbeat_tick True (heartbeat_tick False example_plugin)) =
     [''ws://p1'', ''ws://p2'', ''ws://p1'']"
proof -
  let ?p = "example_plugin"
  let ?q = "heartbeat_tick False example_plugin"
  have q: "?q = ?p\<lparr>provider := ''ws://p2'', web3 := None, closed := [''ws://p1''],
      attempts := [''ws://p1'', ''ws://p2'']\<rparr>"
    using heartbeat_failover [of ?p "''ws://p1''"] by (simp add: example_plugin_fields)
  have r: "heartbeat_tick True ?q = ?q\<lparr>provider := ''ws://p1'',
      attempts := [''ws://p1'', ''ws://p2'', ''ws://p1'']\<rparr>"
    using heartbeat_failover [of ?q _ True] by (simp add: q example_plugin_fields Let_def)
  have s: "intervals (heartbeat (PluginRddn example_opts)) = [5000]"
    using heartbeat_failover [of "PluginRddn example_opts"] by (simp add: PluginRddn_def)
  have k: "heartbeat_tick True ?p = ?p"
    using heartbeat_failover [of ?p "''ws://p1''"] by (simp add: example_plugin_fields)
  show ?thesis
    by (simp add: r s k) (simp add: q example_plugin_fields)
qed


end
